theory Spec2Isabelle
  imports Complex_Main "HOL-Library.Char_ord" "HOL-Library.List_Lexorder"
begin

text \<open>
  A model of \<^verbatim>\<open>synchronizer.py\<close>, the one-way synchronizer of a source folder into a
  replica folder. The methods of the class \<^verbatim>\<open>Synchronizer\<close> are functions on a pair of the
  file system and the object; an exception is a result \<open>Inl\<close>. The library calls the
  program makes (\<^verbatim>\<open>str.replace\<close>, \<^verbatim>\<open>os.path\<close>, \<^verbatim>\<open>os.walk\<close>, \<^verbatim>\<open>shutil\<close>) are modelled on a
  file system without symbolic links and permissions. Three things are parameters:
  the bound on the length of a walk, the order in which Python iterates a set, and the
  value of \<^verbatim>\<open>float(eval(argument))\<close>.
\<close>

section \<open>Strings and paths\<close>

text \<open>
  Python's \<^verbatim>\<open>str.replace(old, new)\<close>: every occurrence of \<open>old\<close> is replaced, scanning
  from the left and continuing after each match (matches do not overlap). With an empty
  \<open>old\<close> the string \<open>new\<close> is put before every character and at the end.
\<close>

fun str_replace :: "string \<Rightarrow> string \<Rightarrow> string \<Rightarrow> string" where
  "str_replace old new [] = (if old = [] then new else [])"
| "str_replace old new (c # cs) =
     (if old = [] then new @ c # str_replace old new cs
      else if take (length old) (c # cs) = old
        then new @ str_replace old new (drop (length old) (c # cs))
      else c # str_replace old new cs)"

text \<open>Python's \<^verbatim>\<open>str.split(sep)\<close> for a one-character separator.\<close>

fun str_split :: "char \<Rightarrow> string \<Rightarrow> string list" where
  "str_split sep [] = [[]]"
| "str_split sep (c # cs) =
     (if c = sep then [] # str_split sep cs
      else (case str_split sep cs of
              [] \<Rightarrow> [[c]]
            | h # t \<Rightarrow> (c # h) # t))"

text \<open>
  \<^verbatim>\<open>os.path.join(a, b)\<close> of posixpath, for two arguments: an absolute \<open>b\<close> discards
  \<open>a\<close>; otherwise a separator is put between them unless \<open>a\<close> is empty or ends in one.
\<close>

definition path_join :: "string \<Rightarrow> string \<Rightarrow> string" where
  "path_join a b =
     (if b \<noteq> [] \<and> hd b = CHR ''/'' then b
      else if a = [] \<or> last a = CHR ''/'' then a @ b
      else a @ ''/'' @ b)"

section \<open>Exceptions\<close>

text \<open>
  The Python exceptions the program can meet. \<open>OSError\<close> stands for the whole family
  raised by the file system calls (FileNotFoundError, NotADirectoryError, IsADirectoryError,
  FileExistsError, shutil.Error, ...); \<open>SystemExit\<close> is what \<^verbatim>\<open>sys.exit()\<close> raises.
  Nothing in the program catches an exception except the \<^verbatim>\<open>try\<close> around the interval,
  so a result \<open>Inl e\<close> is the end of the process.
\<close>

datatype exn =
    OSError | RecursionError | ValueError | TypeError | NameError
  | SyntaxError | ZeroDivisionError | SystemExit

section \<open>The file system\<close>

text \<open>
  A file system is a table from canonical paths (the list of names below the root) to
  objects; the root itself, \<open>[]\<close>, is always a directory. The order of the table is the
  order in which a directory listing returns the names. Symbolic links, permissions and
  limits on path lengths are not part of the model.
\<close>

datatype obj = Directory | Regular string

type_synonym fs = "(string list \<times> obj) list"

record world =
  entries :: fs
  cwd :: "string list"

definition lookup :: "fs \<Rightarrow> string list \<Rightarrow> obj option" where
  "lookup t p = (if p = [] then Some Directory else map_of t p)"

text \<open>
  Path resolution as the kernel does it, one component at a time: every component is
  looked up in a directory, empty components and \<open>.\<close> stay, \<open>..\<close> goes up.
\<close>

fun resolve_from :: "fs \<Rightarrow> string list \<Rightarrow> string list \<Rightarrow> string list option" where
  "resolve_from t cur [] = Some cur"
| "resolve_from t cur (c # cs) =
     (if lookup t cur \<noteq> Some Directory then None
      else if c = [] \<or> c = ''.'' then resolve_from t cur cs
      else if c = ''..'' then resolve_from t (butlast cur) cs
      else if lookup t (cur @ [c]) = None then None
      else resolve_from t (cur @ [c]) cs)"

definition start_dir :: "world \<Rightarrow> string \<Rightarrow> string list" where
  "start_dir w p = (if p \<noteq> [] \<and> hd p = CHR ''/'' then [] else cwd w)"

definition resolve :: "world \<Rightarrow> string \<Rightarrow> string list option" where
  "resolve w p =
     (if p = [] then None
      else resolve_from (entries w) (start_dir w p) (str_split CHR ''/'' p))"

text \<open>\<^verbatim>\<open>os.path.exists\<close> and \<^verbatim>\<open>os.path.isdir\<close>.\<close>

definition path_exists :: "world \<Rightarrow> string \<Rightarrow> bool" where
  "path_exists w p = (resolve w p \<noteq> None)"

definition path_isdir :: "world \<Rightarrow> string \<Rightarrow> bool" where
  "path_isdir w p =
     (case resolve w p of
        None \<Rightarrow> False
      | Some q \<Rightarrow> lookup (entries w) q = Some Directory)"

definition children :: "fs \<Rightarrow> string list \<Rightarrow> (string \<times> obj) list" where
  "children t p = [(last q, ob). (q, ob) \<leftarrow> t, q \<noteq> [] \<and> butlast q = p]"

text \<open>
  \<^verbatim>\<open>os.scandir(top)\<close> as \<^verbatim>\<open>os.walk\<close> uses it: the names of the sub-directories and
  of the other entries, or nothing when \<open>top\<close> cannot be listed.
\<close>

definition scandir :: "world \<Rightarrow> string \<Rightarrow> (string list \<times> string list) option" where
  "scandir w topdir =
     (case resolve w topdir of
        None \<Rightarrow> None
      | Some p \<Rightarrow>
          if lookup (entries w) p = Some Directory
          then Some ([n. (n, ob) \<leftarrow> children (entries w) p, ob = Directory],
                     [n. (n, ob) \<leftarrow> children (entries w) p, ob \<noteq> Directory])
          else None)"

text \<open>
  \<^verbatim>\<open>os.walk(top)\<close> with its defaults (top-down, \<^verbatim>\<open>onerror=None\<close>), run together with the
  body of the \<^verbatim>\<open>for\<close> loop that consumes it. The generator is lazy: a directory is listed
  when the walk reaches it, after the body has run for everything before it, and a
  directory that cannot be listed is skipped without an error. The body may add
  directories below the walk, so the loop need not end: the first argument bounds the
  number of directories visited and \<open>None\<close> says that the bound was reached.
\<close>

fun os_walk ::
  "nat \<Rightarrow> (string \<times> string list \<times> string list \<Rightarrow> world \<times> 's \<Rightarrow> exn + world \<times> 's) \<Rightarrow>
   string list \<Rightarrow> world \<times> 's \<Rightarrow> (exn + world \<times> 's) option" where
  "os_walk n body [] ws = Some (Inr ws)"
| "os_walk 0 body (topdir # stack) ws = None"
| "os_walk (Suc n) body (topdir # stack) (w, s) =
     (case scandir w topdir of
        None \<Rightarrow> os_walk n body stack (w, s)
      | Some (dirs, nondirs) \<Rightarrow>
          (case body (topdir, dirs, nondirs) (w, s) of
             Inl e \<Rightarrow> Some (Inl e)
           | Inr ws' \<Rightarrow> os_walk n body (map (path_join topdir) dirs @ stack) ws'))"

text \<open>
  \<^verbatim>\<open>os.makedirs(dst)\<close>: creates the directory and every missing parent; the flag says
  whether the last step created a directory, and a target that exists already is an error.
\<close>

fun makedirs_from :: "fs \<Rightarrow> string list \<Rightarrow> string list \<Rightarrow> bool \<Rightarrow> exn + fs \<times> string list" where
  "makedirs_from t cur [] created = (if created then Inr (t, cur) else Inl OSError)"
| "makedirs_from t cur (c # cs) created =
     (if lookup t cur \<noteq> Some Directory then Inl OSError
      else if c = [] \<or> c = ''.'' then makedirs_from t cur cs created
      else if c = ''..'' then makedirs_from t (butlast cur) cs False
      else (case lookup t (cur @ [c]) of
              None \<Rightarrow> makedirs_from (t @ [(cur @ [c], Directory)]) (cur @ [c]) cs True
            | Some _ \<Rightarrow> makedirs_from t (cur @ [c]) cs False))"

text \<open>
  \<^verbatim>\<open>shutil.copytree(src, dst)\<close>: lists \<open>src\<close>, creates \<open>dst\<close> with its parents, and copies
  what was listed, recursively. When \<open>dst\<close> lies two or more levels below \<open>src\<close>, under a
  child of \<open>src\<close> that was there before, the recursion copies its own output and never
  comes back (CPython ends it with an exception once the stack or the path is too deep).
\<close>

definition copytree :: "world \<Rightarrow> string \<Rightarrow> string \<Rightarrow> exn + world" where
  "copytree w src dst =
     (case resolve w src of
        None \<Rightarrow> Inl OSError
      | Some ps \<Rightarrow>
          if lookup (entries w) ps \<noteq> Some Directory \<or> dst = [] then Inl OSError
          else (case makedirs_from (entries w) (start_dir w dst) (str_split CHR ''/'' dst) False of
                  Inl e \<Rightarrow> Inl e
                | Inr (t, pd) \<Rightarrow>
                    if length ps + 2 \<le> length pd \<and> take (length ps) pd = ps
                       \<and> lookup (entries w) (take (Suc (length ps)) pd) \<noteq> None
                    then Inl RecursionError
                    else Inr (w\<lparr>entries := t @
                           [(pd @ drop (length ps) q, ob). (q, ob) \<leftarrow> entries w,
                              length ps < length q \<and> take (length ps) q = ps]\<rparr>)))"

text \<open>
  \<^verbatim>\<open>shutil.copyfile\<close> and \<^verbatim>\<open>shutil.copy\<close>: the source must be a regular file, the parent of
  the destination a directory; a destination that is a directory receives the file under
  its own name.
\<close>

definition copyfile :: "world \<Rightarrow> string \<Rightarrow> string \<Rightarrow> exn + world" where
  "copyfile w src dst =
     (case resolve w src of
        None \<Rightarrow> Inl OSError
      | Some ps \<Rightarrow>
          (case lookup (entries w) ps of
             Some (Regular content) \<Rightarrow>
               (let comps = str_split CHR ''/'' dst; name = last comps in
                if dst = [] \<or> name = [] \<or> name = ''.'' \<or> name = ''..'' then Inl OSError
                else (case resolve_from (entries w) (start_dir w dst) (butlast comps) of
                        None \<Rightarrow> Inl OSError
                      | Some pp \<Rightarrow>
                          if lookup (entries w) pp \<noteq> Some Directory then Inl OSError
                          else (case lookup (entries w) (pp @ [name]) of
                                  None \<Rightarrow>
                                    Inr (w\<lparr>entries := entries w @ [(pp @ [name], Regular content)]\<rparr>)
                                | Some Directory \<Rightarrow> Inl OSError
                                | Some (Regular old) \<Rightarrow>
                                    if pp @ [name] = ps then Inl OSError
                                    else Inr (w\<lparr>entries :=
                                           map (\<lambda>(q, ob). if q = pp @ [name]
                                                           then (q, Regular content) else (q, ob))
                                               (entries w)\<rparr>))))
           | _ \<Rightarrow> Inl OSError))"

definition basename :: "string \<Rightarrow> string" where
  "basename p = last (str_split CHR ''/'' p)"

definition shutil_copy :: "world \<Rightarrow> string \<Rightarrow> string \<Rightarrow> exn + world" where
  "shutil_copy w src dst =
     copyfile w src (if path_isdir w dst then path_join dst (basename src) else dst)"

text \<open>\<^verbatim>\<open>shutil.rmtree\<close> removes a directory with everything below it, \<^verbatim>\<open>os.remove\<close> one file.\<close>

definition rmtree :: "world \<Rightarrow> string \<Rightarrow> exn + world" where
  "rmtree w path =
     (case resolve w path of
        None \<Rightarrow> Inl OSError
      | Some p \<Rightarrow>
          if p = [] \<or> lookup (entries w) p \<noteq> Some Directory then Inl OSError
          else Inr (w\<lparr>entries := filter (\<lambda>(q, ob). take (length p) q \<noteq> p) (entries w)\<rparr>))"

definition os_remove :: "world \<Rightarrow> string \<Rightarrow> exn + world" where
  "os_remove w path =
     (case resolve w path of
        None \<Rightarrow> Inl OSError
      | Some p \<Rightarrow>
          (case lookup (entries w) p of
             Some (Regular content) \<Rightarrow>
               Inr (w\<lparr>entries := filter (\<lambda>(q, ob). q \<noteq> p) (entries w)\<rparr>)
           | _ \<Rightarrow> Inl OSError))"

text \<open>
  \<^verbatim>\<open>open(path, 'a')\<close>, as the file handler of the log does it: the file is created, empty,
  when it is not there; its parent must be a directory.
\<close>

definition open_append :: "world \<Rightarrow> string \<Rightarrow> exn + world" where
  "open_append w path =
     (let comps = str_split CHR ''/'' path; name = last comps in
      if path = [] \<or> name = [] \<or> name = ''.'' \<or> name = ''..'' then Inl OSError
      else (case resolve_from (entries w) (start_dir w path) (butlast comps) of
              None \<Rightarrow> Inl OSError
            | Some pp \<Rightarrow>
                if lookup (entries w) pp \<noteq> Some Directory then Inl OSError
                else (case lookup (entries w) (pp @ [name]) of
                        None \<Rightarrow> Inr (w\<lparr>entries := entries w @ [(pp @ [name], Regular [])]\<rparr>)
                      | Some Directory \<Rightarrow> Inl OSError
                      | Some (Regular content) \<Rightarrow> Inr w)))"

section \<open>The synchronizer\<close>

text \<open>
  The two folder states are Python dictionaries \<^verbatim>\<open>{'folders': set(), 'files': set()}\<close>.
  The attributes of the object hold references to them, and \<^verbatim>\<open>set_arguments\<close> makes both
  attributes refer to the same dictionary, so the dictionaries live in a store \<open>dicts\<close> and
  the attributes are addresses. The log sink is the list \<open>logged\<close> of the records emitted.
\<close>

datatype object_type = Folders | Files

record folder_state =
  folders :: "string set"
  files :: "string set"

datatype event =
    ScriptRunning
  | ScriptStopped
  | FolderCopied string string
  | FileCopied string string
  | FolderDeleted string string
  | FileDeleted string string
  | UsageError
  | IntervalError
  | DirectoryMissing string
  | DirectoryIsHome string

record synchronizer =
  source_folder_state :: nat
  replica_folder_state :: nat
  dicts :: "nat \<Rightarrow> folder_state"
  source_directory_path :: string
  replica_directory_path :: string
  interval :: real
  log_file_path :: string
  logged :: "event list"

definition empty_state :: folder_state where
  "empty_state = \<lparr>folders = {}, files = {}\<rparr>"

text \<open>\<^verbatim>\<open>state[object_type].add(path)\<close> on the dictionary at address \<open>r\<close>.\<close>

definition dict_add :: "nat \<Rightarrow> object_type \<Rightarrow> string \<Rightarrow> synchronizer \<Rightarrow> synchronizer" where
  "dict_add r object_type path s =
     s\<lparr>dicts := (dicts s)(r :=
        (case object_type of
           Folders \<Rightarrow> (dicts s r)\<lparr>folders := insert path (folders (dicts s r))\<rparr>
         | Files \<Rightarrow> (dicts s r)\<lparr>files := insert path (files (dicts s r))\<rparr>))\<rparr>"

definition logger :: "event \<Rightarrow> synchronizer \<Rightarrow> synchronizer" where
  "logger e s = s\<lparr>logged := logged s @ [e]\<rparr>"

definition get_absolute_path :: "synchronizer \<Rightarrow> string \<Rightarrow> string \<Rightarrow> string" where
  "get_absolute_path s directory_path object_name =
     str_replace (replica_directory_path s) (source_directory_path s)
       (path_join directory_path object_name)"

definition make_copy ::
  "string \<Rightarrow> string \<Rightarrow> object_type \<Rightarrow> world \<times> synchronizer \<Rightarrow> exn + world \<times> synchronizer" where
  "make_copy directory_path object_name object_type ws =
     (case ws of (w, s) \<Rightarrow>
        (let path_abs = path_join directory_path object_name;
             replica_absolute_path =
               str_replace (source_directory_path s) (replica_directory_path s) path_abs
         in if \<not> path_exists w replica_absolute_path then
              (let s1 = dict_add (replica_folder_state s) object_type path_abs s in
               case object_type of
                 Folders \<Rightarrow>
                   (case copytree w path_abs replica_absolute_path of
                      Inl e \<Rightarrow> Inl e
                    | Inr w' \<Rightarrow>
                        Inr (w', dict_add (source_folder_state s1) object_type path_abs
                                   (logger (FolderCopied object_name replica_absolute_path) s1)))
               | Files \<Rightarrow>
                   (case shutil_copy w path_abs replica_absolute_path of
                      Inl e \<Rightarrow> Inl e
                    | Inr w' \<Rightarrow>
                        Inr (w', dict_add (source_folder_state s1) object_type path_abs
                                   (logger (FileCopied object_name replica_absolute_path) s1))))
            else Inr (w, dict_add (source_folder_state s) object_type path_abs s)))"

definition delete_files ::
  "string \<Rightarrow> object_type \<Rightarrow> world \<times> synchronizer \<Rightarrow> exn + world \<times> synchronizer" where
  "delete_files directory_object object_type ws =
     (case ws of (w, s) \<Rightarrow>
        (let replica_absolute_path =
               str_replace (source_directory_path s) (replica_directory_path s) directory_object
         in if path_exists w replica_absolute_path then
              (case object_type of
                 Folders \<Rightarrow>
                   (case rmtree w replica_absolute_path of
                      Inl e \<Rightarrow> Inl e
                    | Inr w' \<Rightarrow>
                        Inr (w', logger (FolderDeleted (last (str_split CHR ''/'' directory_object))
                                           replica_absolute_path) s))
               | Files \<Rightarrow>
                   (case os_remove w replica_absolute_path of
                      Inl e \<Rightarrow> Inl e
                    | Inr w' \<Rightarrow>
                        Inr (w', logger (FileDeleted (last (str_split CHR ''/'' directory_object))
                                           replica_absolute_path) s)))
            else Inr (w, s)))"

text \<open>\<^verbatim>\<open>itertools.zip_longest\<close> of two lists: the shorter one is filled up with \<open>None\<close>.\<close>

fun zip_longest :: "'a list \<Rightarrow> 'b list \<Rightarrow> ('a option \<times> 'b option) list" where
  "zip_longest [] [] = []"
| "zip_longest (x # xs) [] = (Some x, None) # zip_longest xs []"
| "zip_longest [] (y # ys) = (None, Some y) # zip_longest [] ys"
| "zip_longest (x # xs) (y # ys) = (Some x, Some y) # zip_longest xs ys"

text \<open>
  One step of the inner loop for one of the two names of a pair. The test \<^verbatim>\<open>if folder:\<close>
  is false for \<open>None\<close> and for the empty string. With \<^verbatim>\<open>state_only\<close> set the path goes
  into \<open>folder_state\<close>; otherwise \<^verbatim>\<open>make_copy\<close> is called.
\<close>

definition collect :: "nat \<Rightarrow> string \<Rightarrow> string option \<Rightarrow> object_type \<Rightarrow> synchronizer \<Rightarrow> synchronizer" where
  "collect folder_state directory_path name object_type s =
     (case name of
        None \<Rightarrow> s
      | Some object_name \<Rightarrow>
          if object_name = [] then s
          else dict_add folder_state object_type
                 (get_absolute_path s directory_path object_name) s)"

definition copy_entry ::
  "string \<Rightarrow> string option \<Rightarrow> object_type \<Rightarrow> world \<times> synchronizer \<Rightarrow> exn + world \<times> synchronizer" where
  "copy_entry directory_path name object_type ws =
     (case name of
        None \<Rightarrow> Inr ws
      | Some object_name \<Rightarrow>
          if object_name = [] then Inr ws
          else make_copy directory_path object_name object_type ws)"

text \<open>The inner loop of \<^verbatim>\<open>check_folder_state\<close> over one directory of the walk.\<close>

fun scan_entries ::
  "bool \<Rightarrow> nat \<Rightarrow> string \<Rightarrow> (string option \<times> string option) list \<Rightarrow>
   world \<times> synchronizer \<Rightarrow> exn + world \<times> synchronizer" where
  "scan_entries state_only folder_state directory_path [] ws = Inr ws"
| "scan_entries state_only folder_state directory_path ((folder, file) # rest) ws =
     (if state_only then
        scan_entries state_only folder_state directory_path rest
          (fst ws, collect folder_state directory_path file Files
                     (collect folder_state directory_path folder Folders (snd ws)))
      else (case copy_entry directory_path folder Folders ws of
              Inl e \<Rightarrow> Inl e
            | Inr ws1 \<Rightarrow>
                (case copy_entry directory_path file Files ws1 of
                   Inl e \<Rightarrow> Inl e
                 | Inr ws2 \<Rightarrow> scan_entries state_only folder_state directory_path rest ws2)))"

definition walk_body ::
  "bool \<Rightarrow> nat \<Rightarrow> string \<times> string list \<times> string list \<Rightarrow>
   world \<times> synchronizer \<Rightarrow> exn + world \<times> synchronizer" where
  "walk_body state_only folder_state current_directory ws =
     (case current_directory of (directory_path, folders_in_directory, files_in_directory) \<Rightarrow>
        scan_entries state_only folder_state directory_path
          (zip_longest folders_in_directory files_in_directory) ws)"

definition delete_entry ::
  "string option \<Rightarrow> object_type \<Rightarrow> world \<times> synchronizer \<Rightarrow> exn + world \<times> synchronizer" where
  "delete_entry name object_type ws =
     (case name of
        None \<Rightarrow> Inr ws
      | Some directory_object \<Rightarrow>
          if directory_object = [] then Inr ws
          else delete_files directory_object object_type ws)"

fun delete_loop ::
  "(string option \<times> string option) list \<Rightarrow> world \<times> synchronizer \<Rightarrow> exn + world \<times> synchronizer" where
  "delete_loop [] ws = Inr ws"
| "delete_loop ((folder, file) # rest) ws =
     (case delete_entry folder Folders ws of
        Inl e \<Rightarrow> Inl e
      | Inr ws1 \<Rightarrow>
          (case delete_entry file Files ws1 of
             Inl e \<Rightarrow> Inl e
           | Inr ws2 \<Rightarrow> delete_loop rest ws2))"

text \<open>Lines 166 and 167: the two set differences, taken on the dictionaries as they are then.\<close>

definition deleted_folders :: "synchronizer \<Rightarrow> string set" where
  "deleted_folders s =
     folders (dicts s (replica_folder_state s)) - folders (dicts s (source_folder_state s))"

definition deleted_files :: "synchronizer \<Rightarrow> string set" where
  "deleted_files s =
     files (dicts s (replica_folder_state s)) - files (dicts s (source_folder_state s))"

text \<open>
  Lines 175 to 180: the replica attribute takes over the reference of the source attribute,
  and the source attribute gets a new, empty dictionary at an unused address.
\<close>

definition rotate :: "synchronizer \<Rightarrow> synchronizer" where
  "rotate s =
     (let fresh = Suc (max (source_folder_state s) (replica_folder_state s)) in
      s\<lparr>replica_folder_state := source_folder_state s,
        source_folder_state := fresh,
        dicts := (dicts s)(fresh := empty_state)\<rparr>)"

text \<open>
  \<^verbatim>\<open>check_folder_state(directory, folder_state, state_only)\<close>. The walk is bounded by \<open>fuel\<close>
  (see \<open>os_walk\<close>). Python does not fix the order in which a set is iterated: \<open>iter\<close> is that
  order, a parameter of the call. The deletions and the rotation also run when
  \<^verbatim>\<open>state_only\<close> is set, as in the source, where only the inner loop tests the flag.
\<close>

definition check_folder_state ::
  "nat \<Rightarrow> (string set \<Rightarrow> string list) \<Rightarrow> string \<Rightarrow> nat \<Rightarrow> bool \<Rightarrow>
   world \<times> synchronizer \<Rightarrow> (exn + world \<times> synchronizer) option" where
  "check_folder_state fuel iter directory folder_state state_only ws =
     (case os_walk fuel (walk_body state_only folder_state) [directory] ws of
        None \<Rightarrow> None
      | Some (Inl e) \<Rightarrow> Some (Inl e)
      | Some (Inr ws1) \<Rightarrow>
          (case delete_loop (zip_longest (iter (deleted_folders (snd ws1)))
                                         (iter (deleted_files (snd ws1)))) ws1 of
             Inl e \<Rightarrow> Some (Inl e)
           | Inr ws2 \<Rightarrow> Some (Inr (fst ws2, rotate (snd ws2)))))"


section \<open>Start-up\<close>

text \<open>\<^verbatim>\<open>sep.join(xs)\<close>, \<^verbatim>\<open>os.getcwd\<close>, \<^verbatim>\<open>os.path.normpath\<close> and \<^verbatim>\<open>os.path.abspath\<close> of posixpath.\<close>

fun str_join :: "string \<Rightarrow> string list \<Rightarrow> string" where
  "str_join sep [] = []"
| "str_join sep [x] = x"
| "str_join sep (x # y # ys) = x @ sep @ str_join sep (y # ys)"

definition getcwd :: "world \<Rightarrow> string" where
  "getcwd w = ''/'' @ str_join ''/'' (cwd w)"

fun norm_comps :: "bool \<Rightarrow> string list \<Rightarrow> string list \<Rightarrow> string list" where
  "norm_comps initial_slashes new_comps [] = new_comps"
| "norm_comps initial_slashes new_comps (component # comps) =
     (if component = [] \<or> component = ''.'' then norm_comps initial_slashes new_comps comps
      else if component \<noteq> ''..'' \<or> (\<not> initial_slashes \<and> new_comps = [])
              \<or> (new_comps \<noteq> [] \<and> last new_comps = ''..'')
        then norm_comps initial_slashes (new_comps @ [component]) comps
      else if new_comps \<noteq> [] then norm_comps initial_slashes (butlast new_comps) comps
      else norm_comps initial_slashes new_comps comps)"

definition normpath :: "string \<Rightarrow> string" where
  "normpath path =
     (if path = [] then ''.''
      else (let initial_slashes =
                  (if take 1 path \<noteq> ''/'' then 0
                   else if take 2 path = ''//'' \<and> take 3 path \<noteq> ''///'' then 2
                   else (1::nat));
                comps = norm_comps (0 < initial_slashes) [] (str_split CHR ''/'' path);
                joined = replicate initial_slashes CHR ''/'' @ str_join ''/'' comps
            in if joined = [] then ''.'' else joined))"

definition abspath :: "world \<Rightarrow> string \<Rightarrow> string" where
  "abspath w path =
     normpath (if take 1 path = ''/'' then path else path_join (getcwd w) path)"

text \<open>
  \<^verbatim>\<open>check_arguments\<close>. The interval is read by \<^verbatim>\<open>float(eval(argument))\<close>: what Python's
  evaluator and \<^verbatim>\<open>float\<close> make of a string is the parameter \<open>float_eval\<close>, which gives the
  number or the exception raised. Of these the \<^verbatim>\<open>except\<close> clause catches
  ValueError, TypeError and NameError; any other exception leaves the function as it is.
  The result carries the error records logged, since a failed start has no object yet.
\<close>

datatype argument = Path string | Number real

fun check_each ::
  "(string \<Rightarrow> exn + real) \<Rightarrow> world \<Rightarrow> nat \<Rightarrow> string list \<Rightarrow> event list \<times> (exn + argument list)" where
  "check_each float_eval w position [] = ([], Inr [])"
| "check_each float_eval w position (argument # rest) =
     (if position = 2 then
        (case float_eval argument of
           Inl e \<Rightarrow>
             if e = ValueError \<or> e = TypeError \<or> e = NameError
             then ([IntervalError], Inl SystemExit)
             else ([], Inl e)
         | Inr v \<Rightarrow>
             (case check_each float_eval w (Suc position) rest of
                (l, Inl e) \<Rightarrow> (l, Inl e)
              | (l, Inr checked) \<Rightarrow> (l, Inr (Number v # checked))))
      else if \<not> path_exists w argument then ([DirectoryMissing argument], Inl SystemExit)
      else if abspath w argument = getcwd w \<and> position \<noteq> 3
        then ([DirectoryIsHome argument], Inl SystemExit)
      else (case check_each float_eval w (Suc position) rest of
              (l, Inl e) \<Rightarrow> (l, Inl e)
            | (l, Inr checked) \<Rightarrow> (l, Inr (Path argument # checked))))"

definition check_arguments ::
  "(string \<Rightarrow> exn + real) \<Rightarrow> world \<Rightarrow> string list \<Rightarrow> event list \<times> (exn + argument list)" where
  "check_arguments float_eval w argv =
     (let arguments = drop 1 argv in
      if length arguments \<noteq> 4 then ([UsageError], Inl SystemExit)
      else check_each float_eval w 0 arguments)"

text \<open>
  The object as \<^verbatim>\<open>__init__\<close> sets it up before \<^verbatim>\<open>set_arguments\<close>: two dictionaries of
  their own (empty in Python; they are replaced before anything reads them).
\<close>

definition new_synchronizer :: synchronizer where
  "new_synchronizer =
     \<lparr>source_folder_state = 0, replica_folder_state = 1, dicts = (\<lambda>r. empty_state),
      source_directory_path = [], replica_directory_path = [], interval = 0,
      log_file_path = [], logged = []\<rparr>"

text \<open>
  \<^verbatim>\<open>set_arguments\<close>: the four checked arguments are unpacked into the attributes, and both
  state attributes are bound to one new dictionary.
\<close>

definition set_arguments ::
  "(string \<Rightarrow> exn + real) \<Rightarrow> world \<Rightarrow> string list \<Rightarrow> synchronizer \<Rightarrow>
   event list \<times> (exn + synchronizer)" where
  "set_arguments float_eval w argv s =
     (case check_arguments float_eval w argv of
        (l, Inl e) \<Rightarrow> (l, Inl e)
      | (l, Inr [Path source, Path replica, Number seconds, Path log_path]) \<Rightarrow>
          (let shared = Suc (max (source_folder_state s) (replica_folder_state s)) in
           (l, Inr (s\<lparr>source_directory_path := source,
                      replica_directory_path := replica,
                      interval := seconds,
                      log_file_path := log_path,
                      replica_folder_state := shared,
                      source_folder_state := shared,
                      dicts := (dicts s)(shared := empty_state)\<rparr>)))
      | (l, Inr other) \<Rightarrow> (l, Inl ValueError))"

text \<open>\<^verbatim>\<open>time.sleep(secs)\<close> raises ValueError for a negative length.\<close>

definition time_sleep :: "real \<Rightarrow> exn + unit" where
  "time_sleep secs = (if secs < 0 then Inl ValueError else Inr ())"

text \<open>
  \<^verbatim>\<open>run_synchronizer\<close>, in two parts: what runs before the loop (\<open>run_start\<close>: the record
  that the script runs, and the walk of the replica with \<^verbatim>\<open>state_only=True\<close>), and one turn
  of the \<^verbatim>\<open>while True\<close> loop (\<open>run_cycle\<close>: the walk of the source, then the sleep).
  \<open>run_cycles\<close> is a number of turns one after the other.
\<close>

definition run_start ::
  "nat \<Rightarrow> (string set \<Rightarrow> string list) \<Rightarrow> world \<times> synchronizer \<Rightarrow>
   (exn + world \<times> synchronizer) option" where
  "run_start fuel iter ws =
     (case ws of (w, s) \<Rightarrow>
        check_folder_state fuel iter (replica_directory_path s) (replica_folder_state s) True
          (w, logger ScriptRunning s))"

definition run_cycle ::
  "nat \<Rightarrow> (string set \<Rightarrow> string list) \<Rightarrow> world \<times> synchronizer \<Rightarrow>
   (exn + world \<times> synchronizer) option" where
  "run_cycle fuel iter ws =
     (case ws of (w, s) \<Rightarrow>
        (case check_folder_state fuel iter (source_directory_path s) (source_folder_state s)
                False (w, s) of
           None \<Rightarrow> None
         | Some (Inl e) \<Rightarrow> Some (Inl e)
         | Some (Inr (w', s')) \<Rightarrow>
             (case time_sleep (interval s') of
                Inl e \<Rightarrow> Some (Inl e)
              | Inr u \<Rightarrow> Some (Inr (w', s')))))"

fun run_cycles ::
  "nat \<Rightarrow> nat \<Rightarrow> (string set \<Rightarrow> string list) \<Rightarrow> world \<times> synchronizer \<Rightarrow>
   (exn + world \<times> synchronizer) option" where
  "run_cycles 0 fuel iter ws = Some (Inr ws)"
| "run_cycles (Suc k) fuel iter ws =
     (case run_cycle fuel iter ws of
        None \<Rightarrow> None
      | Some (Inl e) \<Rightarrow> Some (Inl e)
      | Some (Inr ws') \<Rightarrow> run_cycles k fuel iter ws')"

text \<open>
  \<^verbatim>\<open>create_log_file\<close>: the file handler opens \<^verbatim>\<open>folder_synchronizer.log\<close> in the log
  directory at once. What is written to the file later is not followed in the file
  system; the records are in \<open>logged\<close>.
\<close>

definition create_log_file :: "world \<times> synchronizer \<Rightarrow> exn + world \<times> synchronizer" where
  "create_log_file ws =
     (case ws of (w, s) \<Rightarrow>
        (let log_file_name = ''folder_synchronizer.log'' in
         case open_append w (path_join (log_file_path s) log_file_name) of
           Inl e \<Rightarrow> Inl e
         | Inr w' \<Rightarrow> Inr (w', s)))"

text \<open>\<^verbatim>\<open>stop_synchronizer\<close>, the handler of the interrupt: one record, then \<^verbatim>\<open>sys.exit()\<close>.\<close>

definition stop_synchronizer :: "synchronizer \<Rightarrow> synchronizer \<times> exn" where
  "stop_synchronizer s = (logger ScriptStopped s, SystemExit)"

text \<open>
  \<^verbatim>\<open>Synchronizer()\<close> up to the loop: \<^verbatim>\<open>set_arguments\<close>, then \<^verbatim>\<open>create_log_file\<close>, then the
  start of \<^verbatim>\<open>run_synchronizer\<close>. The first component is what was logged when the start
  fails in \<^verbatim>\<open>check_arguments\<close>.
\<close>

definition synchronizer_init ::
  "nat \<Rightarrow> (string set \<Rightarrow> string list) \<Rightarrow> (string \<Rightarrow> exn + real) \<Rightarrow> world \<Rightarrow> string list \<Rightarrow>
   event list \<times> (exn + world \<times> synchronizer) option" where
  "synchronizer_init fuel iter float_eval w argv =
     (case set_arguments float_eval w argv new_synchronizer of
        (l, Inl e) \<Rightarrow> (l, Some (Inl e))
      | (l, Inr s) \<Rightarrow>
          (case create_log_file (w, s) of
             Inl e \<Rightarrow> (l, Some (Inl e))
           | Inr ws \<Rightarrow> (l, run_start fuel iter ws)))"

section \<open>Notions used in the statements\<close>

text \<open>An occurrence of \<open>old\<close> somewhere in \<open>s\<close>.\<close>

definition occurs :: "string \<Rightarrow> string \<Rightarrow> bool" where
  "occurs old s = (\<exists>i \<le> length s. take (length old) (drop i s) = old)"

text \<open>
  The attributes that only \<^verbatim>\<open>set_arguments\<close> and the rotation at the end of
  \<^verbatim>\<open>check_folder_state\<close> assign: the walk and the deletions leave them as they are.
\<close>

definition same_attributes :: "synchronizer \<Rightarrow> synchronizer \<Rightarrow> bool" where
  "same_attributes s s' =
     (source_directory_path s' = source_directory_path s
      \<and> replica_directory_path s' = replica_directory_path s
      \<and> interval s' = interval s
      \<and> log_file_path s' = log_file_path s
      \<and> source_folder_state s' = source_folder_state s
      \<and> replica_folder_state s' = replica_folder_state s)"

text \<open>
  The set of one kind in a folder state, and the relation between the state before and
  after a stretch of a reconciling walk: the attributes stay, both dictionaries only
  grow, and what the replica dictionary gains is also in the source dictionary.
\<close>

definition paths_of :: "object_type \<Rightarrow> folder_state \<Rightarrow> string set" where
  "paths_of object_type d = (case object_type of Folders \<Rightarrow> folders d | Files \<Rightarrow> files d)"

definition only_adds :: "synchronizer \<Rightarrow> synchronizer \<Rightarrow> bool" where
  "only_adds s s' =
     (same_attributes s s'
      \<and> (\<forall>k. paths_of k (dicts s (replica_folder_state s))
               \<subseteq> paths_of k (dicts s' (replica_folder_state s))
             \<and> paths_of k (dicts s (source_folder_state s))
               \<subseteq> paths_of k (dicts s' (source_folder_state s))
             \<and> paths_of k (dicts s' (replica_folder_state s))
               \<subseteq> paths_of k (dicts s (replica_folder_state s))
                  \<union> paths_of k (dicts s' (source_folder_state s))))"






section \<open>Worlds and configurations used as concrete inputs\<close>

text \<open>What \<^verbatim>\<open>float(eval(argument))\<close> gives on the interval arguments used below.\<close>

definition float_eval_sample :: "string \<Rightarrow> exn + real" where
  "float_eval_sample x =
     (if x = ''5'' then Inr 5
      else if x = ''2*3'' then Inr 6
      else if x = ''0'' then Inr 0
      else if x = ''-1'' then Inr (- 1)
      else if x = ''abc'' then Inl NameError
      else Inl SyntaxError)"

text \<open>A synchronizer between \<^verbatim>\<open>/data\<close> and \<^verbatim>\<open>/backup\<close>, and one between \<^verbatim>\<open>/src\<close> and \<^verbatim>\<open>/replica\<close>.\<close>

definition data_backup :: synchronizer where
  "data_backup =
     new_synchronizer\<lparr>source_directory_path := ''/data'', replica_directory_path := ''/backup'',
                       interval := 5, log_file_path := ''/work''\<rparr>"

definition src_replica :: synchronizer where
  "src_replica =
     new_synchronizer\<lparr>source_directory_path := ''/src'', replica_directory_path := ''/replica'',
                       interval := 5, log_file_path := ''/work''\<rparr>"

text \<open>The source holds \<^verbatim>\<open>/data/data.txt\<close>, the replica is empty.\<close>

definition world_data_file :: world where
  "world_data_file =
     \<lparr>entries = [([''data''], Directory), ([''backup''], Directory), ([''work''], Directory),
                 ([''data'', ''data.txt''], Regular ''payload'')],
      cwd = [''work'']\<rparr>"

text \<open>The source is empty, the replica holds \<^verbatim>\<open>/backup/data.txt\<close>.\<close>

definition world_stale_data :: world where
  "world_stale_data =
     \<lparr>entries = [([''data''], Directory), ([''backup''], Directory), ([''work''], Directory),
                 ([''backup'', ''data.txt''], Regular ''stale'')],
      cwd = [''work'']\<rparr>"

text \<open>Three empty directories; the process runs in \<^verbatim>\<open>/work\<close>.\<close>

definition world_empty_roots :: world where
  "world_empty_roots =
     \<lparr>entries = [([''src''], Directory), ([''replica''], Directory), ([''work''], Directory)],
      cwd = [''work'']\<rparr>"

text \<open>
  The source holds \<^verbatim>\<open>a.txt\<close> and \<^verbatim>\<open>b.txt\<close>, the replica \<^verbatim>\<open>b.txt\<close> and \<^verbatim>\<open>old.txt\<close>, and the
  log file is in \<^verbatim>\<open>/work\<close>; and the object as the start leaves it in that world.
\<close>

definition world_old_and_new :: world where
  "world_old_and_new =
     \<lparr>entries = [([''src''], Directory), ([''replica''], Directory), ([''work''], Directory),
                 ([''src'', ''a.txt''], Regular ''A''), ([''src'', ''b.txt''], Regular ''B''),
                 ([''replica'', ''b.txt''], Regular ''B''),
                 ([''replica'', ''old.txt''], Regular ''O''),
                 ([''work'', ''folder_synchronizer.log''], Regular [])],
      cwd = [''work'']\<rparr>"

definition started_old_and_new :: synchronizer where
  "started_old_and_new =
     src_replica\<lparr>replica_folder_state := 2, source_folder_state := 3,
                  dicts := (\<lambda>r. empty_state)
                    (2 := \<lparr>folders = {}, files = {''/src/b.txt'', ''/src/old.txt''}\<rparr>),
                  logged := [ScriptRunning]\<rparr>"

text \<open>The object between \<^verbatim>\<open>/src\<close> and \<^verbatim>\<open>/replica\<close> as \<^verbatim>\<open>set_arguments\<close> leaves it: one dictionary for both states.\<close>

definition bound_src_replica :: synchronizer where
  "bound_src_replica =
     src_replica\<lparr>replica_folder_state := 2, source_folder_state := 2\<rparr>"





section \<open>The path mapping\<close>

text \<open>
  The root at the front of a path is always replaced: the first match of \<open>old\<close> in
  \<open>old @ suffix\<close> is the one at the front. The replacement then goes on in the suffix.
\<close>

lemma str_replace_prefix:
  "old \<noteq> [] \<Longrightarrow> str_replace old new (old @ suffix) = new @ str_replace old new suffix"
  by (cases old) auto

text \<open>
  Where the root does not occur in the rest of the path, the mapping is the replacement
  of the prefix, and mapping there and back gives the path again.
\<close>

lemma str_replace_absent:
  assumes "old \<noteq> []" and "\<not> occurs old s"
  shows "str_replace old new s = s"
  using assms(2)
proof (induction s)
  case Nil
  with assms(1) show ?case by simp
next
  case (Cons c cs)
  from Cons.prems have here: "take (length old) (c # cs) \<noteq> old"
    by (auto simp: occurs_def dest: spec [of _ 0])
  have "\<not> occurs old cs"
  proof
    assume "occurs old cs"
    then obtain i where "i \<le> length cs" "take (length old) (drop i cs) = old"
      by (auto simp: occurs_def)
    then have "Suc i \<le> length (c # cs)" "take (length old) (drop (Suc i) (c # cs)) = old"
      by simp_all
    with Cons.prems show False unfolding occurs_def by blast
  qed
  from Cons.IH [OF this] here assms(1) show ?case by simp
qed

lemma mapping_of_plain_suffix:
  assumes "old \<noteq> []" and "\<not> occurs old suffix"
  shows "str_replace old new (old @ suffix) = new @ suffix"
  using assms by (simp add: str_replace_prefix str_replace_absent)

lemma round_trip_of_plain_suffix:
  assumes "old \<noteq> []" and "new \<noteq> []" and "\<not> occurs old suffix" and "\<not> occurs new suffix"
  shows "str_replace new old (str_replace old new (old @ suffix)) = old @ suffix"
  using assms by (simp add: mapping_of_plain_suffix)

text \<open>
  Claim C3: for a path made of \<open>fromRoot\<close> and a suffix, the mapping returns \<open>toRoot\<close>
  followed by the same suffix. The code maps with \<^verbatim>\<open>str.replace\<close>, which also rewrites
  every later occurrence of the root: from \<^verbatim>\<open>/data\<close> to \<^verbatim>\<open>/backup\<close> the path
  \<^verbatim>\<open>/data/data.txt\<close> becomes \<^verbatim>\<open>/backup/backup.txt\<close>, and \<^verbatim>\<open>make_copy\<close> writes the file
  there, not to \<^verbatim>\<open>/backup/data.txt\<close>.
\<close>

theorem mapping_rewrites_suffix:
  "str_replace ''/data'' ''/backup'' (''/data'' @ ''/data.txt'') = ''/backup/backup.txt''
   \<and> str_replace ''/data'' ''/backup'' (''/data'' @ ''/data.txt'') \<noteq> ''/backup'' @ ''/data.txt''
   \<and> (case make_copy ''/data'' ''data.txt'' Files (world_data_file, data_backup) of
         Inl e \<Rightarrow> False
       | Inr (w', s') \<Rightarrow>
           path_exists w' ''/backup/backup.txt'' \<and> \<not> path_exists w' ''/backup/data.txt'')"
  by code_simp

text \<open>
  Claim C2: mapping a path under the source root to the replica and back gives the path
  again. With the source \<^verbatim>\<open>/data\<close> and the replica \<^verbatim>\<open>/backup\<close>, the path
  \<^verbatim>\<open>/data/backup.txt\<close> maps to \<^verbatim>\<open>/backup/backup.txt\<close>, and \<^verbatim>\<open>get_absolute_path\<close> maps
  that back to \<^verbatim>\<open>/data/data.txt\<close>, another path.
\<close>

theorem round_trip_changes_path:
  "str_replace (source_directory_path data_backup) (replica_directory_path data_backup)
     (path_join ''/data'' ''backup.txt'') = ''/backup/backup.txt''
   \<and> get_absolute_path data_backup ''/backup'' ''backup.txt'' = ''/data/data.txt''
   \<and> get_absolute_path data_backup ''/backup'' ''backup.txt'' \<noteq> path_join ''/data'' ''backup.txt''"
  by code_simp

section \<open>The first cycle after the start\<close>

text \<open>
  In the world with \<^verbatim>\<open>a.txt\<close>, \<^verbatim>\<open>b.txt\<close> in \<^verbatim>\<open>/src\<close> and \<^verbatim>\<open>b.txt\<close>, \<^verbatim>\<open>old.txt\<close> in \<^verbatim>\<open>/replica\<close>,
  where no name contains a root, the first cycle removes \<^verbatim>\<open>old.txt\<close> from the replica,
  copies \<^verbatim>\<open>a.txt\<close> and does not copy \<^verbatim>\<open>b.txt\<close> again.
\<close>

lemma stale_file_of_scenario_removed:
  "(case snd (synchronizer_init 10 sorted_list_of_set float_eval_sample world_old_and_new
               [''synchronizer.py'', ''/src'', ''/replica'', ''5'', ''/work'']) of
      Some (Inr (w0, s0)) \<Rightarrow>
        (case run_cycle 10 sorted_list_of_set (w0, s0) of
           Some (Inr (w1, s1)) \<Rightarrow>
             \<not> path_exists w1 ''/replica/old.txt''
             \<and> path_exists w1 ''/replica/a.txt'' \<and> path_exists w1 ''/replica/b.txt''
             \<and> logged s1 = [ScriptRunning, FileCopied ''a.txt'' ''/replica/a.txt'',
                             FileDeleted ''old.txt'' ''/replica/old.txt'']
         | _ \<Rightarrow> False)
    | _ \<Rightarrow> False)"
  by code_simp

text \<open>
  Claim C5: a file in the replica that the source does not have is removed by the first
  cycle. With the source \<^verbatim>\<open>/data\<close> (empty) and the replica \<^verbatim>\<open>/backup\<close> holding
  \<^verbatim>\<open>data.txt\<close>, the start records the file as \<^verbatim>\<open>/data/data.txt\<close>; the cycle maps that name
  to \<^verbatim>\<open>/backup/backup.txt\<close>, finds nothing there and deletes nothing: the file is still
  in the replica after the cycle, and nothing but the start has been logged.
\<close>

theorem stale_file_survives_first_cycle:
  "(case snd (synchronizer_init 10 sorted_list_of_set float_eval_sample world_stale_data
               [''synchronizer.py'', ''/data'', ''/backup'', ''5'', ''/work'']) of
      Some (Inr (w0, s0)) \<Rightarrow>
        files (dicts s0 (replica_folder_state s0)) = {''/data/data.txt''}
        \<and> (case run_cycle 10 sorted_list_of_set (w0, s0) of
             Some (Inr (w1, s1)) \<Rightarrow>
               path_exists w1 ''/backup/data.txt'' \<and> \<not> path_exists w1 ''/data/data.txt''
               \<and> logged s1 = [ScriptRunning]
           | _ \<Rightarrow> False)
    | _ \<Rightarrow> False)"
  by code_simp

section \<open>What the loops leave unchanged\<close>

lemma same_attributes_refl: "same_attributes s s"
  by (simp add: same_attributes_def)

lemma same_attributes_trans:
  "same_attributes s s1 \<Longrightarrow> same_attributes s1 s2 \<Longrightarrow> same_attributes s s2"
  by (simp add: same_attributes_def)


lemma same_attributes_logger: "same_attributes s (logger e s)"
  by (simp add: same_attributes_def logger_def)







lemma delete_files_frame:
  "delete_files p k ws = Inr ws' \<Longrightarrow>
     same_attributes (snd ws) (snd ws') \<and> dicts (snd ws') = dicts (snd ws)"
  by (cases ws)
     (auto simp: delete_files_def Let_def same_attributes_def logger_def
           split: if_splits object_type.splits sum.splits)

lemma delete_entry_frame:
  "delete_entry n k ws = Inr ws' \<Longrightarrow>
     same_attributes (snd ws) (snd ws') \<and> dicts (snd ws') = dicts (snd ws)"
  by (auto simp: delete_entry_def same_attributes_refl
           split: option.splits if_splits dest: delete_files_frame)

lemma delete_loop_frame:
  "delete_loop ps ws = Inr ws' \<Longrightarrow>
     same_attributes (snd ws) (snd ws') \<and> dicts (snd ws') = dicts (snd ws)"
proof (induction ps arbitrary: ws)
  case Nil
  then show ?case by (simp add: same_attributes_refl)
next
  case (Cons p ps)
  obtain fo fi where p: "p = (fo, fi)" by (cases p)
  with Cons.prems obtain ws1 ws2 where
    a: "delete_entry fo Folders ws = Inr ws1" and
    b: "delete_entry fi Files ws1 = Inr ws2" and
    c: "delete_loop ps ws2 = Inr ws'"
    by (auto split: sum.splits)
  from delete_entry_frame [OF a] delete_entry_frame [OF b] Cons.IH [OF c]
  show ?case by (auto intro: same_attributes_trans)
qed

section \<open>The parts of a call of \<^verbatim>\<open>check_folder_state\<close>\<close>

lemma check_folder_state_parts:
  assumes "check_folder_state fuel iter directory r so ws = Some (Inr ws')"
  obtains ws1 ws2 where
    "os_walk fuel (walk_body so r) [directory] ws = Some (Inr ws1)"
    "delete_loop (zip_longest (iter (deleted_folders (snd ws1))) (iter (deleted_files (snd ws1)))) ws1 = Inr ws2"
    "ws' = (fst ws2, rotate (snd ws2))"
  using assms by (auto simp: check_folder_state_def split: option.splits sum.splits)


section \<open>The start-up arguments\<close>



text \<open>The checks of \<^verbatim>\<open>check_arguments\<close> on four arguments, in the order of the loop.\<close>

lemma check_each_four:
  "check_each float_eval w 0 [src, rep, iv, lg] =
     (if \<not> path_exists w src then ([DirectoryMissing src], Inl SystemExit)
      else if abspath w src = getcwd w then ([DirectoryIsHome src], Inl SystemExit)
      else if \<not> path_exists w rep then ([DirectoryMissing rep], Inl SystemExit)
      else if abspath w rep = getcwd w then ([DirectoryIsHome rep], Inl SystemExit)
      else (case float_eval iv of
              Inl e \<Rightarrow> if e = ValueError \<or> e = TypeError \<or> e = NameError
                       then ([IntervalError], Inl SystemExit) else ([], Inl e)
            | Inr v \<Rightarrow> if \<not> path_exists w lg then ([DirectoryMissing lg], Inl SystemExit)
                       else ([], Inr [Path src, Path rep, Number v, Path lg])))"
  by (simp add: eval_nat_numeral split: sum.splits)

lemma world_empty_roots_facts:
  "path_exists world_empty_roots ''/src''"
  "path_exists world_empty_roots ''/replica''"
  "path_exists world_empty_roots ''/work''"
  "path_exists world_empty_roots ''.''"
  "abspath world_empty_roots ''/src'' \<noteq> getcwd world_empty_roots"
  "abspath world_empty_roots ''/replica'' \<noteq> getcwd world_empty_roots"
  "abspath world_empty_roots ''.'' = getcwd world_empty_roots"
  "abspath world_empty_roots ''/work'' = getcwd world_empty_roots"
  by code_simp+

lemma float_eval_sample_values:
  "float_eval_sample ''5'' = Inr 5"
  "float_eval_sample ''abc'' = Inl NameError"
  "float_eval_sample ''5s'' = Inl SyntaxError"
  by (simp_all add: float_eval_sample_def)




text \<open>
  An exception that the \<^verbatim>\<open>except\<close> clause does not name, here the SyntaxError of the
  interval \<^verbatim>\<open>5s\<close>, ends the start without any record in the log.
\<close>

lemma syntax_error_is_not_reported:
  "synchronizer_init 10 sorted_list_of_set float_eval_sample world_empty_roots
     [''synchronizer.py'', ''/src'', ''/replica'', ''5s'', ''/work'']
   = ([], Some (Inl SyntaxError))"
  by (simp add: synchronizer_init_def set_arguments_def check_arguments_def
        check_each_four world_empty_roots_facts float_eval_sample_values)

section \<open>What a reconciling walk does to the two dictionaries\<close>

lemma only_adds_refl: "only_adds s s"
  by (auto simp: only_adds_def same_attributes_refl)

lemma only_adds_trans:
  assumes "only_adds s s1" and "only_adds s1 s2"
  shows "only_adds s s2"
proof -
  from assms have a: "same_attributes s s1" and b: "same_attributes s1 s2"
    by (simp_all add: only_adds_def)
  then have r: "replica_folder_state s1 = replica_folder_state s"
    and q: "source_folder_state s1 = source_folder_state s"
    by (simp_all add: same_attributes_def)
  have "paths_of k (dicts s (replica_folder_state s))
          \<subseteq> paths_of k (dicts s2 (replica_folder_state s))
        \<and> paths_of k (dicts s (source_folder_state s))
          \<subseteq> paths_of k (dicts s2 (source_folder_state s))
        \<and> paths_of k (dicts s2 (replica_folder_state s))
          \<subseteq> paths_of k (dicts s (replica_folder_state s))
             \<union> paths_of k (dicts s2 (source_folder_state s))" for k
    using assms(1) assms(2) [unfolded only_adds_def r q]
    unfolding only_adds_def by blast
  with same_attributes_trans [OF a b] show ?thesis
    by (simp add: only_adds_def)
qed

lemma make_copy_only_adds:
  "make_copy d n k ws = Inr ws' \<Longrightarrow> only_adds (snd ws) (snd ws')"
  by (cases ws; cases k)
     (auto simp: make_copy_def Let_def only_adds_def same_attributes_def dict_add_def logger_def
                 paths_of_def
           split: if_splits object_type.splits sum.splits)

lemma os_walk_preserves:
  assumes refl: "\<And>s. R s s"
    and trans: "\<And>a b c. R a b \<Longrightarrow> R b c \<Longrightarrow> R a c"
    and body: "\<And>t ws ws'. body t ws = Inr ws' \<Longrightarrow> R (snd ws) (snd ws')"
    and run: "os_walk fuel body stack ws = Some (Inr ws')"
  shows "R (snd ws) (snd ws')"
  using run
proof (induction fuel arbitrary: stack ws)
  case 0
  then show ?case by (cases stack) (simp_all add: refl)
next
  case (Suc n)
  show ?case
  proof (cases stack)
    case Nil
    with Suc.prems show ?thesis by (simp add: refl)
  next
    case (Cons topdir rest)
    obtain w s where ws: "ws = (w, s)" by (cases ws)
    show ?thesis
    proof (cases "scandir w topdir")
      case None
      with Suc.prems Cons ws have "os_walk n body rest ws = Some (Inr ws')" by simp
      from Suc.IH [OF this] show ?thesis .
    next
      case (Some listing)
      obtain dirs nondirs where l: "listing = (dirs, nondirs)" by (cases listing)
      from Suc.prems Cons ws Some l obtain ws1 where
        a: "body (topdir, dirs, nondirs) ws = Inr ws1" and
        b: "os_walk n body (map (path_join topdir) dirs @ rest) ws1 = Some (Inr ws')"
        by (auto split: sum.splits)
      from Suc.IH [OF b] body [OF a] show ?thesis by (rule trans [rotated])
    qed
  qed
qed

lemma scan_entries_copy_preserves:
  assumes refl: "\<And>s. R s s"
    and trans: "\<And>a b c. R a b \<Longrightarrow> R b c \<Longrightarrow> R a c"
    and step: "\<And>d n k ws ws'. make_copy d n k ws = Inr ws' \<Longrightarrow> R (snd ws) (snd ws')"
    and run: "scan_entries False r d ps ws = Inr ws'"
  shows "R (snd ws) (snd ws')"
  using run
proof (induction ps arbitrary: ws)
  case Nil
  then show ?case by (simp add: refl)
next
  case (Cons p ps)
  obtain fo fi where p: "p = (fo, fi)" by (cases p)
  have entry: "R (snd x) (snd y)" if "copy_entry d n k x = Inr y" for n k x y
    using that by (auto simp: copy_entry_def refl split: option.splits if_splits dest: step)
  from Cons.prems p obtain ws1 ws2 where
    a: "copy_entry d fo Folders ws = Inr ws1" and
    b: "copy_entry d fi Files ws1 = Inr ws2" and
    c: "scan_entries False r d ps ws2 = Inr ws'"
    by (auto split: sum.splits)
  from entry [OF a] entry [OF b] Cons.IH [OF c] show ?case by (blast intro: trans)
qed

lemma walk_only_adds:
  assumes "os_walk fuel (walk_body False r) stack ws = Some (Inr ws')"
  shows "only_adds (snd ws) (snd ws')"
proof (rule os_walk_preserves [where R = only_adds, OF only_adds_refl _ _ assms])
  show "only_adds a c" if "only_adds a b" "only_adds b c" for a b c
    using that by (rule only_adds_trans)
  show "only_adds (snd x) (snd y)" if "walk_body False r t x = Inr y" for t x y
  proof -
    obtain d ds ns where t: "t = (d, ds, ns)" by (cases t)
    with that have "scan_entries False r d (zip_longest ds ns) x = Inr y"
      by (simp add: walk_body_def)
    then show ?thesis
      using only_adds_refl only_adds_trans make_copy_only_adds
      by (rule scan_entries_copy_preserves [where R = only_adds, rotated 3])
  qed
qed



lemma started_old_and_new_is_start:
  "(case snd (synchronizer_init 10 sorted_list_of_set float_eval_sample world_old_and_new
               [''synchronizer.py'', ''/src'', ''/replica'', ''5'', ''/work'']) of
      Some (Inr (w, s)) \<Rightarrow>
        entries w = entries world_old_and_new
        \<and> replica_folder_state s = replica_folder_state started_old_and_new
        \<and> source_folder_state s = source_folder_state started_old_and_new
        \<and> dicts s 2 = dicts started_old_and_new 2
        \<and> dicts s 3 = dicts started_old_and_new 3
        \<and> logged s = logged started_old_and_new
        \<and> source_directory_path s = source_directory_path started_old_and_new
        \<and> replica_directory_path s = replica_directory_path started_old_and_new
    | _ \<Rightarrow> False)"
  by code_simp

section \<open>The sets of a cycle\<close>


lemma old_and_new_cycle:
  "case check_folder_state 10 sorted_list_of_set ''/src'' 3 False
               (world_old_and_new, started_old_and_new) of
          Some (Inr (w', s')) \<Rightarrow>
            files (dicts s' (replica_folder_state s')) = {''/src/a.txt'', ''/src/b.txt''}
            \<and> folders (dicts s' (replica_folder_state s')) = {}
        | _ \<Rightarrow> False"
    by code_simp








section \<open>The rotation of the baseline\<close>

text \<open>What \<^verbatim>\<open>check_folder_state\<close> leaves when it returns.\<close>

lemma rotation_facts:
  assumes "check_folder_state fuel iter directory r False (w, s) = Some (Inr (w', s'))"
  shows "\<exists>w1 s1.
           os_walk fuel (walk_body False r) [directory] (w, s) = Some (Inr (w1, s1))
           \<and> replica_folder_state s' = source_folder_state s
           \<and> dicts s' (replica_folder_state s') = dicts s1 (source_folder_state s)
           \<and> source_folder_state s' \<noteq> replica_folder_state s'
           \<and> dicts s' (source_folder_state s') = empty_state
           \<and> only_adds s s1"
proof -
  from assms obtain ws1 ws2 where
    a: "os_walk fuel (walk_body False r) [directory] (w, s) = Some (Inr ws1)" and
    b: "delete_loop (zip_longest (iter (deleted_folders (snd ws1)))
                                 (iter (deleted_files (snd ws1)))) ws1 = Inr ws2" and
    c: "(w', s') = (fst ws2, rotate (snd ws2))"
    by (rule check_folder_state_parts)
  obtain w1 s1 where ws1: "ws1 = (w1, s1)" by (cases ws1)
  from walk_only_adds [OF a] ws1 have adds: "only_adds s s1" by simp
  then have at: "same_attributes s s1" by (simp add: only_adds_def)
  from delete_loop_frame [OF b] ws1
  have f: "same_attributes s1 (snd ws2)" "dicts (snd ws2) = dicts s1" by simp_all
  from c have s': "s' = rotate (snd ws2)" by simp
  from at f have refs: "source_folder_state (snd ws2) = source_folder_state s"
    "replica_folder_state (snd ws2) = replica_folder_state s"
    by (simp_all add: same_attributes_def)
  have "replica_folder_state s' = source_folder_state s"
    "dicts s' (replica_folder_state s') = dicts s1 (source_folder_state s)"
    "source_folder_state s' \<noteq> replica_folder_state s'"
    "dicts s' (source_folder_state s') = empty_state"
    using refs f(2) by (simp_all add: s' rotate_def Let_def)
  with a ws1 adds show ?thesis by blast
qed

text \<open>
  Claim C8, as amended: when a cycle returns, the replica attribute refers to the
  dictionary that was the source state of the cycle, holding what the walk collected
  (nothing of the previous snapshot is merged into it), and the source attribute refers
  to a new, empty dictionary. Before that, during the walk, the previous snapshot is
  changed in place as well: it only gains paths, each of them a copied path that is also
  in the source dictionary.
\<close>

theorem baseline_rotation:
  assumes "check_folder_state fuel iter directory r False (w, s) = Some (Inr (w', s'))"
  shows "\<exists>w1 s1.
           os_walk fuel (walk_body False r) [directory] (w, s) = Some (Inr (w1, s1))
           \<and> replica_folder_state s' = source_folder_state s
           \<and> dicts s' (replica_folder_state s') = dicts s1 (source_folder_state s)
           \<and> source_folder_state s' \<noteq> replica_folder_state s'
           \<and> dicts s' (source_folder_state s') = empty_state
           \<and> only_adds s s1"
  using assms by (rule rotation_facts)

text \<open>
  Claim C8 as stated fails where it says that the snapshot is changed once per cycle and
  never merged: \<^verbatim>\<open>make_copy\<close> adds the path it copies to the previous snapshot. With
  \<^verbatim>\<open>b.txt\<close> and \<^verbatim>\<open>old.txt\<close> in the snapshot, copying \<^verbatim>\<open>a.txt\<close> makes it hold all three
  paths, which is neither the previous snapshot nor the source snapshot; the rotation at
  the end of the cycle is a second change.
\<close>

theorem copy_adds_to_previous_snapshot:
  "files (dicts started_old_and_new (replica_folder_state started_old_and_new))
     = {''/src/b.txt'', ''/src/old.txt''}
   \<and> (case make_copy ''/src'' ''a.txt'' Files (world_old_and_new, started_old_and_new) of
         Inr (w3, s3) \<Rightarrow>
           replica_folder_state s3 = replica_folder_state started_old_and_new
           \<and> files (dicts s3 (replica_folder_state s3))
               = {''/src/a.txt'', ''/src/b.txt'', ''/src/old.txt''}
       | _ \<Rightarrow> False)
   \<and> (case os_walk 10 (walk_body False 3) [''/src''] (world_old_and_new, started_old_and_new) of
         Some (Inr (w1, s1)) \<Rightarrow>
           replica_folder_state s1 = replica_folder_state started_old_and_new
           \<and> files (dicts s1 (replica_folder_state s1))
               = {''/src/a.txt'', ''/src/b.txt'', ''/src/old.txt''}
           \<and> files (dicts s1 (source_folder_state s1)) = {''/src/a.txt'', ''/src/b.txt''}
       | _ \<Rightarrow> False)
   \<and> (case check_folder_state 10 sorted_list_of_set ''/src'' 3 False
              (world_old_and_new, started_old_and_new) of
         Some (Inr (w', s')) \<Rightarrow>
           files (dicts s' (replica_folder_state s')) = {''/src/a.txt'', ''/src/b.txt''}
       | _ \<Rightarrow> False)"
  by code_simp

text \<open>The cycle in the same world: the new baseline is the source dictionary of address 3.\<close>

theorem baseline_rotation_witness:
  "\<exists>w' s' w1 s1.
      check_folder_state 10 sorted_list_of_set ''/src'' 3 False
        (world_old_and_new, started_old_and_new) = Some (Inr (w', s'))
      \<and> os_walk 10 (walk_body False 3) [''/src''] (world_old_and_new, started_old_and_new)
          = Some (Inr (w1, s1))
      \<and> replica_folder_state s' = 3
      \<and> dicts s' (replica_folder_state s') = dicts s1 3
      \<and> files (dicts s' (replica_folder_state s')) = {''/src/a.txt'', ''/src/b.txt''}
      \<and> dicts s' (source_folder_state s') = empty_state"
proof -
  obtain r where r: "check_folder_state 10 sorted_list_of_set ''/src'' 3 False
            (world_old_and_new, started_old_and_new) = r" by simp
  from old_and_new_cycle [unfolded r] obtain w' s' where
    run: "r = Some (Inr (w', s'))" and
    fi: "files (dicts s' (replica_folder_state s')) = {''/src/a.txt'', ''/src/b.txt''}"
    by (cases r) (auto split: sum.splits)
  have run': "check_folder_state 10 sorted_list_of_set ''/src'' 3 False
            (world_old_and_new, started_old_and_new) = Some (Inr (w', s'))"
    using r run by simp
  have q: "source_folder_state started_old_and_new = 3"
    by (simp add: started_old_and_new_def)
  from baseline_rotation [OF run', unfolded q] fi run' show ?thesis by blast
qed

section \<open>A walk whose root cannot be listed\<close>

text \<open>
  Claim C7, as amended: if the root given to the walk does not exist or is not a
  directory, \<^verbatim>\<open>os.walk\<close> yields nothing and raises nothing: the walk returns with the
  world and the object unchanged, so that nothing is added to the snapshot, and
  \<^verbatim>\<open>check_folder_state\<close> goes on with the deletions and the rotation as for an empty tree.
\<close>

theorem missing_root_gives_empty_walk:
  assumes "\<not> path_isdir w directory"
  shows "os_walk (Suc fuel) (walk_body state_only folder_state) [directory] (w, s)
           = Some (Inr (w, s))
         \<and> check_folder_state (Suc fuel) iter directory folder_state state_only (w, s)
           = (case delete_loop (zip_longest (iter (deleted_folders s)) (iter (deleted_files s)))
                    (w, s) of
                Inl e \<Rightarrow> Some (Inl e)
              | Inr ws2 \<Rightarrow> Some (Inr (fst ws2, rotate (snd ws2))))"
proof -
  from assms have "scandir w directory = None"
    by (auto simp: scandir_def path_isdir_def split: option.splits)
  then have "os_walk (Suc fuel) (walk_body state_only folder_state) [directory] (w, s)
           = Some (Inr (w, s))"
    by simp
  then show ?thesis by (simp add: check_folder_state_def)
qed

text \<open>
  Claim C7 as stated fails: the snapshot of the missing root \<^verbatim>\<open>/missing\<close> returns normally,
  with an empty snapshot, an unchanged file system and nothing logged.
\<close>

theorem missing_root_raises_nothing:
  "\<not> path_exists world_empty_roots ''/missing''
   \<and> (case check_folder_state 1 sorted_list_of_set ''/missing''
              (replica_folder_state bound_src_replica) True
              (world_empty_roots, bound_src_replica) of
         Some (Inr (w', s')) \<Rightarrow>
           entries w' = entries world_empty_roots
           \<and> dicts s' (replica_folder_state s') = empty_state
           \<and> logged s' = []
       | _ \<Rightarrow> False)"
  by code_simp

text \<open>The walk of \<^verbatim>\<open>/missing\<close> in a world that has no such directory.\<close>

theorem missing_root_witness:
  "\<not> path_isdir world_empty_roots ''/missing''
   \<and> os_walk 1 (walk_body True 2) [''/missing''] (world_empty_roots, bound_src_replica)
       = Some (Inr (world_empty_roots, bound_src_replica))"
proof -
  have a: "\<not> path_isdir world_empty_roots ''/missing''" by code_simp
  from missing_root_gives_empty_walk [OF a, of 0 True 2 bound_src_replica] a
  show ?thesis by simp
qed

section \<open>A cycle that finds the replica complete\<close>





















section \<open>A folder with a file in it\<close>










end
